theory Spec2Isabelle
  imports Main "HOL-Library.Word" "HOL-Library.Sublist"
begin

section \<open>Messages of the persistent control connection\<close>

text \<open>
  The generated package \<open>pb\<close> is not part of the sources at hand; the message types
  follow the schema of the persistent connection: every request and every response
  carries a call id and at most one variant of a oneof. A Go pointer that may be
  \<open>nil\<close> is an \<open>option\<close>.
\<close>

type_synonym bytes = "8 word list"
type_synonym error = string

record CallUnaryRequest =
  Peer :: bytes
  Proto :: string
  Data :: bytes

datatype CallUnaryResponse =
  Result_Response bytes
| Result_Error string
| Result_NotSet

datatype request_message =
  Request_AddUnaryHandler string
| Request_CallUnary CallUnaryRequest
| Request_UnaryResponse CallUnaryResponse
| Request_Cancel

record PersistentConnectionRequest =
  CallId :: bytes
  Message :: "request_message option"

datatype response_message =
  Response_CallUnaryResponse "CallUnaryResponse option"
| Response_RequestHandling CallUnaryRequest
| Response_DaemonError string
| Response_Cancel

record PersistentConnectionResponse =
  RespCallId :: bytes
  RespMessage :: "response_message option"

text \<open>
  Modelled from the spec: the accessors generated into package \<open>pb\<close> are not under
  src/. A getter of a oneof returns the payload of its own variant and \<open>nil\<close> for every
  other variant and for an unset oneof.
\<close>

fun GetCallUnary :: "PersistentConnectionRequest \<Rightarrow> CallUnaryRequest option" where
  "GetCallUnary req =
     (case Message req of Some (Request_CallUnary c) \<Rightarrow> Some c | _ \<Rightarrow> None)"

fun GetUnaryResponse :: "PersistentConnectionRequest \<Rightarrow> CallUnaryResponse option" where
  "GetUnaryResponse req =
     (case Message req of Some (Request_UnaryResponse r) \<Rightarrow> Some r | _ \<Rightarrow> None)"

subsection \<open>Call ids\<close>

type_synonym UUID = bytes

definition Nil_UUID :: UUID where
  "Nil_UUID = replicate 16 0"

text \<open>
  \<open>uuid.FromBytes\<close>: a slice of exactly 16 bytes is a UUID; any other width is an error,
  returned together with the zero UUID.
\<close>

definition FromBytes :: "bytes \<Rightarrow> UUID \<times> error option" where
  "FromBytes b =
     (if length b = 16 then (b, None)
      else (Nil_UUID, Some ''invalid UUID''))"

subsection \<open>Length of a serialized request\<close>

text \<open>
  Modelled from the spec: the marshalling code of package \<open>pb\<close> is not under src/.
  Messages are length-delimited and varint-prefixed; a field of a message is one tag
  byte, the varint of the length of its content, and the content.
\<close>

fun sov :: "nat \<Rightarrow> nat" where
  "sov n = (if n < 128 then 1 else Suc (sov (n div 128)))"

definition field_size :: "nat \<Rightarrow> nat" where
  "field_size l = 1 + sov l + l"

definition Size_CallUnaryRequest :: "CallUnaryRequest \<Rightarrow> nat" where
  "Size_CallUnaryRequest c =
     field_size (length (Peer c)) + field_size (length (Proto c)) + field_size (length (Data c))"

fun Size_CallUnaryResponse :: "CallUnaryResponse \<Rightarrow> nat" where
  "Size_CallUnaryResponse (Result_Response b) = field_size (length b)"
| "Size_CallUnaryResponse (Result_Error e) = field_size (length e)"
| "Size_CallUnaryResponse Result_NotSet = 0"

fun Size_message :: "request_message option \<Rightarrow> nat" where
  "Size_message None = 0"
| "Size_message (Some (Request_AddUnaryHandler p)) = field_size (field_size (length p))"
| "Size_message (Some (Request_CallUnary c)) = field_size (Size_CallUnaryRequest c)"
| "Size_message (Some (Request_UnaryResponse r)) = field_size (Size_CallUnaryResponse r)"
| "Size_message (Some Request_Cancel) = field_size 0"

definition Size :: "PersistentConnectionRequest \<Rightarrow> nat" where
  "Size req = field_size (length (CallId req)) + Size_message (Message req)"

subsection \<open>Framed reading\<close>

text \<open>
  What a delimited reader finds on its byte stream: a frame, given by the length its
  prefix announces and by the message its body unmarshals to (if any), or a failure of
  the transport (end of stream included).
\<close>

datatype frame =
  Frame nat "PersistentConnectionRequest option"
| TransportError error

text \<open>The frame that writing a request puts on a stream.\<close>

definition encode :: "PersistentConnectionRequest \<Rightarrow> frame" where
  "encode req = Frame (Size req) (Some req)"

text \<open>
  \<open>ggio.NewDelimitedReader(r, maxSize).ReadMsg\<close>: a length above \<open>maxSize\<close> is refused
  before the body is read.
\<close>

fun ReadMsg :: "nat \<Rightarrow> frame \<Rightarrow> error + PersistentConnectionRequest" where
  "ReadMsg maxSize (TransportError e) = Inl e"
| "ReadMsg maxSize (Frame n body) =
     (if n > maxSize then Inl ''short buffer''
      else case body of None \<Rightarrow> Inl ''unmarshal failed'' | Some req \<Rightarrow> Inr req)"

text \<open>\<open>network.MessageSizeMax\<close> of the peer-to-peer library: 4 MiB.\<close>

definition MessageSizeMax :: nat where
  "MessageSizeMax = 4194304"

section \<open>The daemon\<close>

type_synonym writer = nat
type_synonym CancelFunc = nat
type_synonym chan = nat
type_synonym stream = nat

text \<open>
  The fields of the daemon that the persistent connection uses, and the part of the
  world its operations act on:
  \<^item> \<open>host_handlers\<close>: the stream handler table of the host; the handler installed for a
    protocol is \<open>getPersistentStreamHandler cw\<close>, identified by the client writer
    \<open>cw\<close> it is bound to;
  \<^item> \<open>cancelled\<close>: the contexts whose cancel function has been called;
  \<^item> \<open>wire\<close>: the frames written to each client, in order;
  \<^item> \<open>chans\<close>: the values sent on each response channel;
  \<^item> \<open>stream_out\<close>: the frames written to each remote stream, \<open>stream_closed\<close>: the
    streams that were closed;
  \<^item> \<open>awaitTermination_started\<close>: how often \<open>go d.awaitTermination()\<close> ran;
  \<^item> \<open>next_id\<close>: the supply of fresh contexts and channels.
\<close>

record Daemon =
  host_handlers :: "string \<Rightarrow> writer option"
  registeredUnaryProtocols :: "string \<Rightarrow> bool option"
  cancelUnary :: "UUID \<Rightarrow> CancelFunc option"
  responseWaiters :: "UUID \<Rightarrow> chan option"
  cancelTerminateTimer :: "CancelFunc option"
  terminateWG :: int
  terminateOnce :: bool
  awaitTermination_started :: nat
  persistentConnMsgMaxSize :: nat
  cancelled :: "CancelFunc set"
  wire :: "writer \<Rightarrow> PersistentConnectionResponse list"
  chans :: "chan \<Rightarrow> PersistentConnectionRequest list"
  stream_out :: "stream \<Rightarrow> PersistentConnectionRequest list"
  stream_closed :: "stream set"
  next_id :: nat

subsection \<open>Responses\<close>

definition errorUnaryCallString :: "UUID \<Rightarrow> string \<Rightarrow> PersistentConnectionResponse" where
  "errorUnaryCallString callID errMsg =
     \<lparr>RespCallId = callID, RespMessage = Some (Response_DaemonError errMsg)\<rparr>"

definition errorUnaryCall :: "UUID \<Rightarrow> error \<Rightarrow> PersistentConnectionResponse" where
  "errorUnaryCall callID err = errorUnaryCallString callID err"

definition okUnaryCallResponse :: "UUID \<Rightarrow> PersistentConnectionResponse" where
  "okUnaryCallResponse callID = \<lparr>RespCallId = callID, RespMessage = None\<rparr>"

definition okCancelled :: "UUID \<Rightarrow> PersistentConnectionResponse" where
  "okCancelled callID = \<lparr>RespCallId = callID, RespMessage = Some Response_Cancel\<rparr>"

fun isDaemonError :: "PersistentConnectionResponse \<Rightarrow> bool" where
  "isDaemonError resp =
     (case RespMessage resp of Some (Response_DaemonError m) \<Rightarrow> True | _ \<Rightarrow> False)"

text \<open>
  \<open>safeWriter.WriteMsg\<close>: the frame reaches the client when the underlying writer
  reports no error; \<open>werr\<close> is what the underlying writer reports. A \<open>nil\<close> message is
  never framed.
\<close>

definition WriteMsg ::
  "writer \<Rightarrow> PersistentConnectionResponse option \<Rightarrow> error option \<Rightarrow> Daemon \<Rightarrow> Daemon" where
  "WriteMsg w msg werr d =
     (case msg of
        None \<Rightarrow> d
      | Some m \<Rightarrow>
          (case werr of
             None \<Rightarrow> d\<lparr>wire := (wire d)(w := wire d w @ [m])\<rparr>
           | Some e \<Rightarrow> d))"

subsection \<open>What a Go function call comes to\<close>

datatype 'a outcome = Panics | Blocks | Returns 'a

section \<open>Registering a unary handler\<close>

text \<open>
  \<open>doAddUnaryHandler\<close>, run under the daemon's mutex. The request is given by its
  protocol name.
\<close>

definition doAddUnaryHandler ::
  "Daemon \<Rightarrow> writer \<Rightarrow> UUID \<Rightarrow> string \<Rightarrow> PersistentConnectionResponse \<times> Daemon" where
  "doAddUnaryHandler d w callID p =
     (if registeredUnaryProtocols d p = Some True
      then (errorUnaryCallString callID (''handler for protocol '' @ p @ '' already set''), d)
      else (okUnaryCallResponse callID,
            d\<lparr>host_handlers := (host_handlers d)(p \<mapsto> w),
              registeredUnaryProtocols := (registeredUnaryProtocols d)(p \<mapsto> True)\<rparr>))"

text \<open>
  The worker that the read loop starts for an \<open>AddUnaryHandler\<close> request. The list
  \<open>streamHandlers\<close> is the variable of \<open>handleUpgradedConn\<close> that the worker shares with
  it. The result holds the state in which the response is handed to the writer, the
  state after the write, and the list.
\<close>

definition addUnaryHandler_worker ::
  "Daemon \<Rightarrow> string list \<Rightarrow> writer \<Rightarrow> UUID \<Rightarrow> string \<Rightarrow> error option
     \<Rightarrow> Daemon \<times> Daemon \<times> string list" where
  "addUnaryHandler_worker d streamHandlers w callID p werr =
     (let (resp, d1) = doAddUnaryHandler d w callID p;
          streamHandlers' =
            (if \<not> isDaemonError resp then streamHandlers @ [p] else streamHandlers)
      in (d1, WriteMsg w (Some resp) werr d1, streamHandlers'))"

section \<open>Delivering a client's response to an inbound call\<close>

text \<open>\<open>fmt\<close>'s verb \<open>%d\<close> on a \<open>[16]byte\<close>: the bytes in decimal, in brackets.\<close>

definition digit_char :: "nat \<Rightarrow> char" where
  "digit_char n = ''0123456789'' ! n"

fun decimal :: "nat \<Rightarrow> string" where
  "decimal n =
     (if n < 10 then [digit_char n] else decimal (n div 10) @ [digit_char (n mod 10)])"

fun join_space :: "string list \<Rightarrow> string" where
  "join_space [] = []"
| "join_space [x] = x"
| "join_space (x # y # ys) = x @ '' '' @ join_space (y # ys)"

definition Sprintf_d :: "UUID \<Rightarrow> string" where
  "Sprintf_d callID = ''['' @ join_space (map (\<lambda>b. decimal (unat b)) callID) @ '']''"

definition doSendReponseToRemote ::
  "Daemon \<Rightarrow> PersistentConnectionRequest \<Rightarrow> PersistentConnectionResponse \<times> Daemon" where
  "doSendReponseToRemote d req =
     (case FromBytes (CallId req) of
        (callID, Some err) \<Rightarrow>
          (errorUnaryCallString callID ''malformed request: call id not in UUID format'', d)
      | (callID, None) \<Rightarrow>
          (case responseWaiters d callID of
             None \<Rightarrow>
               (errorUnaryCallString callID
                  (''Response for call id '' @ Sprintf_d callID @ '' not requested or cancelled''),
                d)
           | Some rc \<Rightarrow>
               (okUnaryCallResponse callID,
                d\<lparr>chans := (chans d)(rc := chans d rc @ [req])\<rparr>)))"

definition unaryResponse_worker ::
  "Daemon \<Rightarrow> writer \<Rightarrow> PersistentConnectionRequest \<Rightarrow> error option \<Rightarrow> Daemon" where
  "unaryResponse_worker d w req werr =
     (let (resp, d1) = doSendReponseToRemote d req in WriteMsg w (Some resp) werr d1)"

section \<open>Cancelling an outbound call\<close>

definition cancel_worker :: "Daemon \<Rightarrow> UUID \<Rightarrow> Daemon" where
  "cancel_worker d callID =
     (case cancelUnary d callID of
        None \<Rightarrow> d
      | Some cf \<Rightarrow> d\<lparr>cancelled := insert cf (cancelled d)\<rparr>)"

section \<open>Outbound calls\<close>

text \<open>
  What the world answers to one outbound call: the results of \<open>peer.IDFromBytes\<close> and of
  \<open>NewStream\<close>, the result of the framed write on the remote stream, what
  \<open>ctx.Err()\<close> is when the exchange looks at it, the frame that arrives on the stream
  (\<open>None\<close> while nothing has arrived), which arm a select takes when both are ready, and
  the result of the write to the client.
\<close>

record call_env =
  IDFromBytes :: "bytes \<Rightarrow> error option"
  NewStream :: "bytes \<Rightarrow> string \<Rightarrow> error + stream"
  write_err :: "error option"
  ctx_err_after_write :: bool
  incoming :: "frame option"
  ctx_err_after_read :: bool
  send_takes_done :: bool
  select_takes_done :: bool
  client_write_err :: "error option"

text \<open>
  The channel \<open>rc\<close> as the select of \<open>doUnaryCall\<close> finds it: nothing offered yet, a
  response offered, or closed without a value.
\<close>

datatype rc_state = RcEmpty | RcValue PersistentConnectionResponse | RcClosed

definition exchangeMessages ::
  "call_env \<Rightarrow> stream \<Rightarrow> PersistentConnectionRequest \<Rightarrow> Daemon \<Rightarrow> rc_state \<times> Daemon" where
  "exchangeMessages env s req d =
     (let callID = fst (FromBytes (CallId req));
          d1 = (case write_err env of
                  None \<Rightarrow> d\<lparr>stream_out := (stream_out d)(s := stream_out d s @ [req])\<rparr>
                | Some err \<Rightarrow> d)
      in if ctx_err_after_write env then (RcClosed, d1)
         else case write_err env of
           Some err \<Rightarrow> (RcValue (errorUnaryCall callID err), d1)
         | None \<Rightarrow>
            (case incoming env of
               None \<Rightarrow> (RcEmpty, d1)
             | Some f \<Rightarrow>
                 if ctx_err_after_read env then (RcClosed, d1)
                 else (case ReadMsg MessageSizeMax f of
                   Inl err \<Rightarrow> (RcValue (errorUnaryCall callID err), d1)
                 | Inr remoteResp \<Rightarrow>
                     (let resp = okUnaryCallResponse callID;
                          resp' = resp\<lparr>RespMessage :=
                                    Some (Response_CallUnaryResponse (GetUnaryResponse remoteResp))\<rparr>
                      in if send_takes_done env then (RcClosed, d1)
                         else (RcValue resp', d1)))))"

text \<open>
  The select of \<open>doUnaryCall\<close>: \<open>done\<close> says whether the context is cancelled. A receive
  from the closed channel yields \<open>nil\<close>. With no arm ready the call waits.
\<close>

fun select_response ::
  "rc_state \<Rightarrow> bool \<Rightarrow> bool \<Rightarrow> UUID \<Rightarrow> PersistentConnectionResponse option outcome" where
  "select_response RcEmpty done takes_done callID =
     (if done then Returns (Some (okCancelled callID)) else Blocks)"
| "select_response (RcValue response) done takes_done callID =
     (if done \<and> takes_done then Returns (Some (okCancelled callID))
      else Returns (Some response))"
| "select_response RcClosed done takes_done callID =
     (if done \<and> takes_done then Returns (Some (okCancelled callID))
      else Returns None)"

definition doUnaryCall ::
  "Daemon \<Rightarrow> CancelFunc \<Rightarrow> UUID \<Rightarrow> PersistentConnectionRequest \<Rightarrow> call_env
     \<Rightarrow> PersistentConnectionResponse option outcome \<times> Daemon" where
  "doUnaryCall d ctx callID req env =
     (case GetCallUnary req of
        None \<Rightarrow> (Panics, d)
      | Some call \<Rightarrow>
         (case IDFromBytes env (Peer call) of
            Some err \<Rightarrow> (Returns (Some (errorUnaryCall callID err)), d)
          | None \<Rightarrow>
             (case NewStream env (Peer call) (Proto call) of
                Inl err \<Rightarrow> (Returns (Some (errorUnaryCall callID err)), d)
              | Inr remoteStream \<Rightarrow>
                 (let (rc, d1) = exchangeMessages env remoteStream req d
                  in case select_response rc (ctx \<in> cancelled d1) (select_takes_done env) callID of
                       Returns response \<Rightarrow>
                         (Returns response,
                          d1\<lparr>stream_closed := insert remoteStream (stream_closed d1)\<rparr>)
                     | other \<Rightarrow> (other, d1)))))"

text \<open>
  The worker for a \<open>CallUnary\<close> request, in two parts: up to the storing of the cancel
  function, and from \<open>doUnaryCall\<close> on, with the deferred calls at the end. The state
  given to the second part is the one in which the select is resolved, so that what
  other workers did in between is visible to it.
\<close>

definition callUnary_begin :: "Daemon \<Rightarrow> UUID \<Rightarrow> CancelFunc \<times> Daemon" where
  "callUnary_begin d callID =
     (let ctx = next_id d
      in (ctx, d\<lparr>cancelUnary := (cancelUnary d)(callID \<mapsto> ctx),
                 cancelled := cancelled d - {ctx},
                 next_id := Suc ctx\<rparr>))"

definition callUnary_deferred :: "CancelFunc \<Rightarrow> UUID \<Rightarrow> Daemon \<Rightarrow> Daemon" where
  "callUnary_deferred ctx callID d =
     d\<lparr>cancelUnary := (cancelUnary d)(callID := None),
       cancelled := insert ctx (cancelled d)\<rparr>"

definition callUnary_finish ::
  "Daemon \<Rightarrow> writer \<Rightarrow> CancelFunc \<Rightarrow> UUID \<Rightarrow> PersistentConnectionRequest \<Rightarrow> call_env
     \<Rightarrow> unit outcome \<times> Daemon" where
  "callUnary_finish d w ctx callID req env =
     (case doUnaryCall d ctx callID req env of
        (Returns resp, d1) \<Rightarrow>
          (Returns (), callUnary_deferred ctx callID (WriteMsg w resp (client_write_err env) d1))
      | (Blocks, d1) \<Rightarrow> (Blocks, d1)
      | (Panics, d1) \<Rightarrow> (Panics, callUnary_deferred ctx callID d1))"

definition callUnary_worker ::
  "Daemon \<Rightarrow> writer \<Rightarrow> UUID \<Rightarrow> PersistentConnectionRequest \<Rightarrow> call_env
     \<Rightarrow> unit outcome \<times> Daemon" where
  "callUnary_worker d w callID req env =
     (let (ctx, d1) = callUnary_begin d callID in callUnary_finish d1 w ctx callID req env)"

section \<open>Inbound streams\<close>

text \<open>
  What the world brings to one run of the handler returned by
  \<open>getPersistentStreamHandler\<close>: the first frame on the stream, the identity of the
  remote peer of the connection, the results of the writes, whether the one-byte read
  of \<open>awaitReadFail\<close> has returned, and which arm the select takes when both are ready.
\<close>

record handler_env =
  first_frame :: frame
  RemotePeer :: bytes
  notify_err :: "error option"
  read_returned :: bool
  select_takes_read :: bool
  cancel_write_err :: "error option"
  remote_write_err :: "error option"

text \<open>
  A handler has panicked, has returned, or waits in its select with its call id, its
  channel and its context.
\<close>

datatype handler_state =
  Handler_Panicked
| Handler_Returned
| Handler_Waiting UUID chan CancelFunc

definition streamHandler_deferred ::
  "CancelFunc \<Rightarrow> UUID \<Rightarrow> stream \<Rightarrow> Daemon \<Rightarrow> Daemon" where
  "streamHandler_deferred ctx callID s d =
     d\<lparr>cancelled := insert ctx (cancelled d),
       responseWaiters := (responseWaiters d)(callID := None),
       stream_closed := insert s (stream_closed d)\<rparr>"

text \<open>The handler bound to the client writer \<open>cw\<close>, up to its select.\<close>

definition streamHandler_begin ::
  "Daemon \<Rightarrow> writer \<Rightarrow> stream \<Rightarrow> handler_env \<Rightarrow> handler_state \<times> Daemon" where
  "streamHandler_begin d cw s env =
     (case ReadMsg MessageSizeMax (first_frame env) of
        Inl err \<Rightarrow> (Handler_Returned, d\<lparr>stream_closed := insert s (stream_closed d)\<rparr>)
      | Inr req0 \<Rightarrow>
         (case GetCallUnary req0 of
            None \<Rightarrow> (Handler_Panicked, d\<lparr>stream_closed := insert s (stream_closed d)\<rparr>)
          | Some call0 \<Rightarrow>
             (let call = call0\<lparr>Peer := RemotePeer env\<rparr>;
                  req = req0\<lparr>Message := Some (Request_CallUnary call)\<rparr>
              in case FromBytes (CallId req) of
                   (callID, Some err) \<Rightarrow>
                     (Handler_Returned, d\<lparr>stream_closed := insert s (stream_closed d)\<rparr>)
                 | (callID, None) \<Rightarrow>
                     (let rc = next_id d;
                          ctx = Suc (next_id d);
                          d1 = d\<lparr>responseWaiters := (responseWaiters d)(callID \<mapsto> rc),
                                 chans := (chans d)(rc := []),
                                 cancelled := cancelled d - {ctx},
                                 next_id := Suc (Suc (next_id d))\<rparr>;
                          resp = \<lparr>RespCallId = CallId req,
                                  RespMessage = Some (Response_RequestHandling call)\<rparr>;
                          d2 = WriteMsg cw (Some resp) (notify_err env) d1
                      in case notify_err env of
                           Some err \<Rightarrow> (Handler_Returned, streamHandler_deferred ctx callID s d2)
                         | None \<Rightarrow> (Handler_Waiting callID rc ctx, d2)))))"

text \<open>
  The select of the handler and what follows it. The first arm is ready once the
  one-byte read has returned, the second once the channel holds a response.
\<close>

definition streamHandler_select ::
  "Daemon \<Rightarrow> writer \<Rightarrow> stream \<Rightarrow> UUID \<Rightarrow> chan \<Rightarrow> CancelFunc \<Rightarrow> handler_env
     \<Rightarrow> handler_state \<times> Daemon" where
  "streamHandler_select d cw s callID rc ctx env =
     (if read_returned env \<and> (chans d rc = [] \<or> select_takes_read env)
      then (Handler_Returned,
            streamHandler_deferred ctx callID s
              (WriteMsg cw (Some \<lparr>RespCallId = callID, RespMessage = Some Response_Cancel\<rparr>)
                 (cancel_write_err env) d))
      else case chans d rc of
             [] \<Rightarrow> (Handler_Waiting callID rc ctx, d)
           | response # rest \<Rightarrow>
               (let d1 = d\<lparr>chans := (chans d)(rc := rest)\<rparr>;
                    d2 = (case remote_write_err env of
                            None \<Rightarrow> d1\<lparr>stream_out := (stream_out d1)(s := stream_out d1 s @ [response])\<rparr>
                          | Some err \<Rightarrow> d1)
                in (Handler_Returned, streamHandler_deferred ctx callID s d2)))"

text \<open>
  The host hands an inbound stream on protocol \<open>p\<close> to the handler installed for \<open>p\<close>;
  without one the stream is refused and no handler runs.
\<close>

definition inbound_stream ::
  "Daemon \<Rightarrow> string \<Rightarrow> stream \<Rightarrow> handler_env \<Rightarrow> (handler_state \<times> Daemon) option" where
  "inbound_stream d p s env =
     (case host_handlers d p of
        None \<Rightarrow> None
      | Some cw \<Rightarrow> Some (streamHandler_begin d cw s env))"

section \<open>The session of one client\<close>

text \<open>\<open>handleUpgradedConn\<close> before its read loop.\<close>

definition handleUpgradedConn_enter :: "Daemon \<Rightarrow> Daemon" where
  "handleUpgradedConn_enter d =
     (let d1 = (case cancelTerminateTimer d of
                  None \<Rightarrow> d
                | Some cf \<Rightarrow> d\<lparr>cancelled := insert cf (cancelled d)\<rparr>);
          d2 = d1\<lparr>terminateWG := terminateWG d1 + 1\<rparr>
      in if terminateOnce d2 then d2
         else d2\<lparr>terminateOnce := True,
                 awaitTermination_started := Suc (awaitTermination_started d2)\<rparr>)"

text \<open>The workers that the read loop starts, one per \<open>go\<close> statement.\<close>

datatype worker =
  Worker_AddUnaryHandler UUID string
| Worker_CallUnary UUID PersistentConnectionRequest
| Worker_UnaryResponse PersistentConnectionRequest
| Worker_Cancel UUID

fun spawn :: "UUID \<Rightarrow> PersistentConnectionRequest \<Rightarrow> worker option" where
  "spawn callID req =
     (case Message req of
        Some (Request_AddUnaryHandler p) \<Rightarrow> Some (Worker_AddUnaryHandler callID p)
      | Some (Request_CallUnary c) \<Rightarrow> Some (Worker_CallUnary callID req)
      | Some (Request_UnaryResponse r) \<Rightarrow> Some (Worker_UnaryResponse req)
      | Some Request_Cancel \<Rightarrow> Some (Worker_Cancel callID)
      | None \<Rightarrow> None)"

text \<open>
  The read loop over the results of \<open>r.ReadMsg\<close>, in order. The result is the list of
  workers started and whether the loop has returned; at the end of the list the loop
  is waiting for the next message. The loop itself writes nothing to the client and
  changes no field of the daemon: only workers do.
\<close>

fun handleUpgradedConn_loop ::
  "(error + PersistentConnectionRequest) list \<Rightarrow> worker list \<times> bool" where
  "handleUpgradedConn_loop [] = ([], False)"
| "handleUpgradedConn_loop (Inl err # rest) = ([], True)"
| "handleUpgradedConn_loop (Inr req # rest) =
     (case FromBytes (CallId req) of
        (callID, Some err) \<Rightarrow> handleUpgradedConn_loop rest
      | (callID, None) \<Rightarrow>
          (case spawn callID req of
             None \<Rightarrow> handleUpgradedConn_loop rest
           | Some w \<Rightarrow>
               (w # fst (handleUpgradedConn_loop rest), snd (handleUpgradedConn_loop rest))))"

text \<open>
  The deferred calls of \<open>handleUpgradedConn\<close>, run when it returns: \<open>terminateWG.Done\<close>,
  then the removal of the handlers in \<open>streamHandlers\<close>.
\<close>

definition remove_handler :: "string \<Rightarrow> Daemon \<Rightarrow> Daemon" where
  "remove_handler p d =
     d\<lparr>host_handlers := (host_handlers d)(p := None),
       registeredUnaryProtocols := (registeredUnaryProtocols d)(p \<mapsto> False)\<rparr>"

definition handleUpgradedConn_deferred :: "string list \<Rightarrow> Daemon \<Rightarrow> Daemon" where
  "handleUpgradedConn_deferred streamHandlers d =
     fold remove_handler streamHandlers (d\<lparr>terminateWG := terminateWG d - 1\<rparr>)"

text \<open>
  A client reader built by \<open>ggio.NewDelimitedReader\<close> with bound \<open>maxSize\<close>: the results
  of its \<open>ReadMsg\<close> on the frames of the client duplex.
\<close>

definition client_reader :: "nat \<Rightarrow> frame list \<Rightarrow> (error + PersistentConnectionRequest) list" where
  "client_reader maxSize frames = map (ReadMsg maxSize) frames"

section \<open>The idle timeout\<close>

text \<open>
  \<open>main\<close>, after the daemon is created. \<open>KillOnTimeout\<close> is not under src/ and is a
  parameter.
\<close>

definition main_idleTimeout :: "int \<Rightarrow> (int \<Rightarrow> Daemon \<Rightarrow> Daemon) \<Rightarrow> Daemon \<Rightarrow> Daemon" where
  "main_idleTimeout idleTimeout KillOnTimeout d =
     (if idleTimeout > 0 then KillOnTimeout idleTimeout d else d)"

text \<open>
  What happens in a daemon, step by step: sessions start and end, and the workers and
  handlers run, each with what it is given.
\<close>

datatype event =
  SessionStart
| SessionExit "string list"
| Run_AddUnaryHandler "string list" writer UUID string "error option"
| Run_CallUnaryBegin UUID
| Run_CallUnaryFinish writer CancelFunc UUID PersistentConnectionRequest call_env
| Run_UnaryResponse writer PersistentConnectionRequest "error option"
| Run_Cancel UUID
| Run_InboundBegin writer stream handler_env
| Run_InboundSelect writer stream UUID chan CancelFunc handler_env

fun step :: "event \<Rightarrow> Daemon \<Rightarrow> Daemon" where
  "step SessionStart d = handleUpgradedConn_enter d"
| "step (SessionExit streamHandlers) d = handleUpgradedConn_deferred streamHandlers d"
| "step (Run_AddUnaryHandler streamHandlers w callID p werr) d =
     fst (snd (addUnaryHandler_worker d streamHandlers w callID p werr))"
| "step (Run_CallUnaryBegin callID) d = snd (callUnary_begin d callID)"
| "step (Run_CallUnaryFinish w ctx callID req env) d =
     snd (callUnary_finish d w ctx callID req env)"
| "step (Run_UnaryResponse w req werr) d = unaryResponse_worker d w req werr"
| "step (Run_Cancel callID) d = cancel_worker d callID"
| "step (Run_InboundBegin cw s env) d = snd (streamHandler_begin d cw s env)"
| "step (Run_InboundSelect cw s callID rc ctx env) d =
     snd (streamHandler_select d cw s callID rc ctx env)"

definition run :: "event list \<Rightarrow> Daemon \<Rightarrow> Daemon" where
  "run evs d = fold step evs d"

section \<open>A daemon without sessions\<close>

text \<open>The zero values of the fields, and a bound for the frames of the client duplex.\<close>

definition zeroDaemon :: "nat \<Rightarrow> Daemon" where
  "zeroDaemon maxSize =
     \<lparr>host_handlers = (\<lambda>p. None),
      registeredUnaryProtocols = (\<lambda>p. None),
      cancelUnary = (\<lambda>c. None),
      responseWaiters = (\<lambda>c. None),
      cancelTerminateTimer = None,
      terminateWG = 0,
      terminateOnce = False,
      awaitTermination_started = 0,
      persistentConnMsgMaxSize = maxSize,
      cancelled = {},
      wire = (\<lambda>w. []),
      chans = (\<lambda>c. []),
      stream_out = (\<lambda>s. []),
      stream_closed = {},
      next_id = 0\<rparr>"

section \<open>One session, worker by worker\<close>

text \<open>
  \<open>handleUpgradedConn\<close> under the schedule in which every worker runs to its end as
  soon as it is started and the writes to the client succeed; \<open>net\<close> says what the
  world answers to an outbound call.
\<close>

fun run_worker ::
  "writer \<Rightarrow> (PersistentConnectionRequest \<Rightarrow> call_env) \<Rightarrow> worker
     \<Rightarrow> Daemon \<times> string list \<Rightarrow> Daemon \<times> string list" where
  "run_worker w net (Worker_AddUnaryHandler callID p) (d, streamHandlers) =
     snd (addUnaryHandler_worker d streamHandlers w callID p None)"
| "run_worker w net (Worker_CallUnary callID req) (d, streamHandlers) =
     (snd (callUnary_worker d w callID req (net req)), streamHandlers)"
| "run_worker w net (Worker_UnaryResponse req) (d, streamHandlers) =
     (unaryResponse_worker d w req None, streamHandlers)"
| "run_worker w net (Worker_Cancel callID) (d, streamHandlers) =
     (cancel_worker d callID, streamHandlers)"

definition handleUpgradedConn ::
  "Daemon \<Rightarrow> writer \<Rightarrow> (error + PersistentConnectionRequest) list
     \<Rightarrow> (PersistentConnectionRequest \<Rightarrow> call_env) \<Rightarrow> Daemon" where
  "handleUpgradedConn d w results net =
     (let (workers, returned) = handleUpgradedConn_loop results;
          (d1, streamHandlers) = fold (run_worker w net) workers (handleUpgradedConn_enter d, [])
      in if returned then handleUpgradedConn_deferred streamHandlers d1 else d1)"

section \<open>Example data\<close>

definition call1 :: UUID where
  "call1 = [1, 2, 3, 4, 5, 6, 7, 8, 9, 10, 11, 12, 13, 14, 15, 16]"

definition call2 :: UUID where
  "call2 = [17, 17, 17, 17, 17, 17, 17, 17, 17, 17, 17, 17, 17, 17, 17, 17]"

definition peerA :: bytes where
  "peerA = [18, 32, 10]"

definition peerB :: bytes where
  "peerB = [18, 32, 11]"

definition req_call :: "bytes \<Rightarrow> bytes \<Rightarrow> PersistentConnectionRequest" where
  "req_call callId x =
     \<lparr>CallId = callId,
      Message = Some (Request_CallUnary \<lparr>Peer = peerA, Proto = ''/p/echo'', Data = x\<rparr>)\<rparr>"

definition req_reply :: "bytes \<Rightarrow> PersistentConnectionRequest" where
  "req_reply y = \<lparr>CallId = call1, Message = Some (Request_UnaryResponse (Result_Response y))\<rparr>"

definition req_cancel :: "bytes \<Rightarrow> PersistentConnectionRequest" where
  "req_cancel callId = \<lparr>CallId = callId, Message = Some Request_Cancel\<rparr>"


text \<open>A peer that is reached on stream 5 and answers with the given frame, if any.\<close>

definition net_answer :: "frame option \<Rightarrow> call_env" where
  "net_answer f =
     \<lparr>IDFromBytes = (\<lambda>b. None),
      NewStream = (\<lambda>pid p. Inr 5),
      write_err = None,
      ctx_err_after_write = False,
      incoming = f,
      ctx_err_after_read = False,
      send_takes_done = False,
      select_takes_done = False,
      client_write_err = None\<rparr>"

text \<open>An inbound stream from \<open>peerB\<close> that starts with the given frame and stays open.\<close>

definition inbound_from_B :: "frame \<Rightarrow> handler_env" where
  "inbound_from_B f =
     \<lparr>first_frame = f,
      RemotePeer = peerB,
      notify_err = None,
      read_returned = False,
      select_takes_read = False,
      cancel_write_err = None,
      remote_write_err = None\<rparr>"

text \<open>
  A daemon with one session, whose client has sent a \<open>CallUnary\<close> with call id
  \<open>call1\<close>: the worker has stored its cancel function, which is context 0.
\<close>

definition in_flight :: Daemon where
  "in_flight = snd (callUnary_begin (handleUpgradedConn_enter (zeroDaemon 0)) call1)"

text \<open>Daemon A after client 1 has registered \<open>/p/echo\<close>.\<close>

definition daemonA :: "nat \<Rightarrow> Daemon" where
  "daemonA maxSize = snd (doAddUnaryHandler (zeroDaemon maxSize) 1 call2 ''/p/echo'')"

section \<open>What the operations leave alone\<close>

lemma WriteMsg_frame:
  "cancelUnary (WriteMsg w m e d) = cancelUnary d \<and>
   cancelled (WriteMsg w m e d) = cancelled d \<and>
   stream_closed (WriteMsg w m e d) = stream_closed d \<and>
   host_handlers (WriteMsg w m e d) = host_handlers d \<and>
   responseWaiters (WriteMsg w m e d) = responseWaiters d \<and>
   chans (WriteMsg w m e d) = chans d \<and>
   stream_out (WriteMsg w m e d) = stream_out d"
  by (simp add: WriteMsg_def split: option.splits)



lemma fold_remove_once:
  "terminateOnce (fold remove_handler ps d) = terminateOnce d \<and>
   awaitTermination_started (fold remove_handler ps d) = awaitTermination_started d"
  by (induction ps arbitrary: d) (auto simp: remove_handler_def)

lemma deferred_keeps_calls:
  "cancelled (handleUpgradedConn_deferred ps d) = cancelled d \<and>
   cancelUnary (handleUpgradedConn_deferred ps d) = cancelUnary d"
proof -
  have "cancelled (fold remove_handler ps e) = cancelled e \<and>
        cancelUnary (fold remove_handler ps e) = cancelUnary e" for e
    by (induction ps arbitrary: e) (auto simp: remove_handler_def)
  then show ?thesis by (simp add: handleUpgradedConn_deferred_def)
qed

lemma loop_after_error:
  "handleUpgradedConn_loop (rs @ Inl e # rest) = (fst (handleUpgradedConn_loop rs), True)"
  by (induction rs rule: handleUpgradedConn_loop.induct) (auto split: prod.splits option.splits)

section \<open>Cancel requests\<close>

text \<open>
  Claim C7. A \<open>Cancel\<close> request whose call id has no entry in \<open>cancelUnary\<close> changes
  nothing: the daemon after the worker is the daemon before it, so no frame is written
  and no registry changes. When the call id has an entry, its cancel function is called
  and nothing else changes: the worker writes no frame. The read loop starts exactly this
  worker for a \<open>Cancel\<close> request and does nothing else with it.
\<close>

theorem cancel_request_effect:
  "(cancelUnary d callID = None \<longrightarrow> cancel_worker d callID = d) \<and>
   (\<forall>cf. cancelUnary d callID = Some cf \<longrightarrow>
      cancel_worker d callID = d\<lparr>cancelled := insert cf (cancelled d)\<rparr> \<and>
      cf \<in> cancelled (cancel_worker d callID) \<and>
      wire (cancel_worker d callID) = wire d) \<and>
   (length (CallId req) = 16 \<and> Message req = Some Request_Cancel \<longrightarrow>
      handleUpgradedConn_loop (Inr req # rest) =
        (Worker_Cancel (CallId req) # fst (handleUpgradedConn_loop rest),
         snd (handleUpgradedConn_loop rest)))"
  by (simp add: cancel_worker_def FromBytes_def)

theorem cancel_request_effect_witness:
  "cancelUnary (zeroDaemon 0) call1 = None \<and>
   cancel_worker (zeroDaemon 0) call1 = zeroDaemon 0 \<and>
   cancelUnary (snd (callUnary_begin (zeroDaemon 0) call1)) call1 = Some 0 \<and>
   0 \<notin> cancelled (snd (callUnary_begin (zeroDaemon 0) call1)) \<and>
   0 \<in> cancelled (cancel_worker (snd (callUnary_begin (zeroDaemon 0) call1)) call1) \<and>
   wire (cancel_worker (snd (callUnary_begin (zeroDaemon 0) call1)) call1) 7 = [] \<and>
   length (CallId (req_cancel call1)) = 16 \<and>
   Message (req_cancel call1) = Some Request_Cancel \<and>
   handleUpgradedConn_loop [Inr (req_cancel call1)] = ([Worker_Cancel call1], False)"
  using cancel_request_effect [of "zeroDaemon 0" call1 "req_cancel call1" "[]"]
        cancel_request_effect [of "snd (callUnary_begin (zeroDaemon 0) call1)" call1]
  by (simp add: zeroDaemon_def callUnary_begin_def call1_def req_cancel_def)

section \<open>Registering a protocol\<close>

text \<open>
  Claim C2. An \<open>AddUnaryHandler\<close> request for protocol \<open>p\<close>: when \<open>p\<close> is registered, the
  response is the daemon error "handler for protocol p already set", the daemon is
  unchanged (no handler is installed) and so is the session's list. Otherwise the handler
  bound to the session's writer \<open>w\<close> is installed on the host, \<open>p\<close> is marked registered
  and appended to the session's list, and the response is Ok. Whenever the response is
  Ok, the handler is installed in the state in which the response is handed to the writer
  and in the state after the write.
\<close>

theorem addUnaryHandler_conflict_or_install:
  "(registeredUnaryProtocols d p = Some True \<longrightarrow>
      addUnaryHandler_worker d sh w callID p werr =
        (d,
         WriteMsg w (Some (errorUnaryCallString callID
                             (''handler for protocol '' @ p @ '' already set''))) werr d,
         sh)) \<and>
   (registeredUnaryProtocols d p \<noteq> Some True \<longrightarrow>
      addUnaryHandler_worker d sh w callID p werr =
        (d\<lparr>host_handlers := (host_handlers d)(p \<mapsto> w),
           registeredUnaryProtocols := (registeredUnaryProtocols d)(p \<mapsto> True)\<rparr>,
         WriteMsg w (Some (okUnaryCallResponse callID)) werr
           (d\<lparr>host_handlers := (host_handlers d)(p \<mapsto> w),
              registeredUnaryProtocols := (registeredUnaryProtocols d)(p \<mapsto> True)\<rparr>),
         sh @ [p])) \<and>
   (RespMessage (fst (doAddUnaryHandler d w callID p)) = None \<longrightarrow>
      host_handlers (fst (addUnaryHandler_worker d sh w callID p werr)) p = Some w \<and>
      host_handlers (fst (snd (addUnaryHandler_worker d sh w callID p werr))) p = Some w)"
  by (simp add: addUnaryHandler_worker_def doAddUnaryHandler_def errorUnaryCallString_def
        okUnaryCallResponse_def WriteMsg_def split: option.splits)

theorem addUnaryHandler_conflict_or_install_witness:
  "registeredUnaryProtocols (zeroDaemon 0) ''/p/echo'' \<noteq> Some True \<and>
   host_handlers (fst (addUnaryHandler_worker (zeroDaemon 0) [] 1 call2 ''/p/echo'' None))
     ''/p/echo'' = Some 1 \<and>
   wire (fst (snd (addUnaryHandler_worker (zeroDaemon 0) [] 1 call2 ''/p/echo'' None))) 1 =
     [okUnaryCallResponse call2] \<and>
   snd (snd (addUnaryHandler_worker (zeroDaemon 0) [] 1 call2 ''/p/echo'' None)) = [''/p/echo''] \<and>
   registeredUnaryProtocols (daemonA 0) ''/p/echo'' = Some True \<and>
   host_handlers (fst (addUnaryHandler_worker (daemonA 0) [] 2 call1 ''/p/echo'' None))
     ''/p/echo'' = Some 1 \<and>
   wire (fst (snd (addUnaryHandler_worker (daemonA 0) [] 2 call1 ''/p/echo'' None))) 2 =
     [errorUnaryCallString call1 ''handler for protocol /p/echo already set''] \<and>
   snd (snd (addUnaryHandler_worker (daemonA 0) [] 2 call1 ''/p/echo'' None)) = []"
  using addUnaryHandler_conflict_or_install [of "zeroDaemon 0" "''/p/echo''" "[]" 1 call2 None]
        addUnaryHandler_conflict_or_install [of "daemonA 0" "''/p/echo''" "[]" 2 call1 None]
  by (simp add: zeroDaemon_def daemonA_def doAddUnaryHandler_def WriteMsg_def)

section \<open>The end of a session\<close>



section \<open>The termination watchdog\<close>

lemma enter_once:
  "terminateOnce (handleUpgradedConn_enter d) \<and>
   awaitTermination_started (handleUpgradedConn_enter d) =
     (if terminateOnce d then awaitTermination_started d else Suc (awaitTermination_started d))"
  by (simp add: handleUpgradedConn_enter_def Let_def split: option.splits)

lemma deferred_once:
  "terminateOnce (handleUpgradedConn_deferred ps d) = terminateOnce d \<and>
   awaitTermination_started (handleUpgradedConn_deferred ps d) = awaitTermination_started d"
  by (simp add: handleUpgradedConn_deferred_def fold_remove_once)

lemma WriteMsg_once:
  "terminateOnce (WriteMsg w m e d) = terminateOnce d \<and>
   awaitTermination_started (WriteMsg w m e d) = awaitTermination_started d"
  by (simp add: WriteMsg_def split: option.splits)

lemma exchangeMessages_once:
  "terminateOnce (snd (exchangeMessages env s req d)) = terminateOnce d \<and>
   awaitTermination_started (snd (exchangeMessages env s req d)) = awaitTermination_started d"
  by (simp add: exchangeMessages_def Let_def split: option.splits sum.splits)

lemma exchangeMessages_onceD:
  "exchangeMessages env s req d = (rc, d1) \<Longrightarrow>
     terminateOnce d1 = terminateOnce d \<and>
     awaitTermination_started d1 = awaitTermination_started d"
  using exchangeMessages_once [of env s req d] by simp

lemma doUnaryCall_once:
  "terminateOnce (snd (doUnaryCall d ctx callID req env)) = terminateOnce d \<and>
   awaitTermination_started (snd (doUnaryCall d ctx callID req env)) = awaitTermination_started d"
  by (auto simp: doUnaryCall_def Let_def dest!: exchangeMessages_onceD
           split: option.splits sum.splits prod.splits outcome.splits)

lemma callUnary_finish_once:
  "terminateOnce (snd (callUnary_finish d w ctx callID req env)) = terminateOnce d \<and>
   awaitTermination_started (snd (callUnary_finish d w ctx callID req env)) =
     awaitTermination_started d"
proof (cases "doUnaryCall d ctx callID req env")
  case (Pair r d1)
  have "terminateOnce d1 = terminateOnce d \<and>
        awaitTermination_started d1 = awaitTermination_started d"
    using doUnaryCall_once [of d ctx callID req env] Pair by simp
  then show ?thesis
    using Pair WriteMsg_once
    by (cases r) (simp_all add: callUnary_finish_def callUnary_deferred_def)
qed

lemma streamHandler_begin_once:
  "terminateOnce (snd (streamHandler_begin d cw s env)) = terminateOnce d \<and>
   awaitTermination_started (snd (streamHandler_begin d cw s env)) = awaitTermination_started d"
  by (simp add: streamHandler_begin_def Let_def streamHandler_deferred_def WriteMsg_def
           split: option.splits sum.splits prod.splits)

lemma streamHandler_select_once:
  "terminateOnce (snd (streamHandler_select d cw s callID rc ctx env)) = terminateOnce d \<and>
   awaitTermination_started (snd (streamHandler_select d cw s callID rc ctx env)) =
     awaitTermination_started d"
  by (simp add: streamHandler_select_def Let_def streamHandler_deferred_def WriteMsg_def
           split: option.splits list.splits)

lemma step_once:
  "ev \<noteq> SessionStart \<Longrightarrow>
     terminateOnce (step ev d) = terminateOnce d \<and>
     awaitTermination_started (step ev d) = awaitTermination_started d"
proof (cases ev)
  case (Run_AddUnaryHandler sh w callID p werr)
  then show ?thesis
    using WriteMsg_once
    by (simp add: addUnaryHandler_worker_def doAddUnaryHandler_def)
next
  case (Run_UnaryResponse w req werr)
  then show ?thesis
    using WriteMsg_once
    by (simp add: unaryResponse_worker_def doSendReponseToRemote_def
          split: prod.splits option.splits)
qed (simp_all add: deferred_once callUnary_begin_def Let_def callUnary_finish_once
       cancel_worker_def streamHandler_begin_once streamHandler_select_once
       split: option.splits)

lemma run_started:
  "awaitTermination_started (fold step evs d) =
     (if terminateOnce d then awaitTermination_started d
      else if SessionStart \<in> set evs then Suc (awaitTermination_started d)
      else awaitTermination_started d) \<and>
   terminateOnce (fold step evs d) = (terminateOnce d \<or> SessionStart \<in> set evs)"
proof (induction evs arbitrary: d)
  case Nil
  then show ?case by simp
next
  case (Cons ev evs)
  show ?case
  proof (cases "ev = SessionStart")
    case True
    then show ?thesis using Cons [of "handleUpgradedConn_enter d"] enter_once [of d] by simp
  next
    case False
    then show ?thesis using Cons [of "step ev d"] step_once [OF False, of d] by simp
  qed
qed

text \<open>
  Claim C9. From a daemon whose \<open>terminateOnce\<close> has not run, after any sequence of
  steps (sessions starting and ending, workers and handlers running)
  \<open>awaitTermination\<close> has been started once if a session has started and not at all
  otherwise: at most once, by the first session. \<open>main\<close> calls
  \<open>KillOnTimeout\<close> only for a positive idle timeout and leaves the daemon as it is for
  zero (or less). A session that starts while no session is live (the counter goes from
  0 to 1) calls the cancel function of the shutdown timer when there is one.
\<close>

theorem watchdog_started_once:
  "(\<not> terminateOnce d \<and> awaitTermination_started d = 0 \<longrightarrow>
      awaitTermination_started (run evs d) = (if SessionStart \<in> set evs then 1 else 0)) \<and>
   (idleTimeout \<le> 0 \<longrightarrow> main_idleTimeout idleTimeout KillOnTimeout d = d) \<and>
   (0 < idleTimeout \<longrightarrow>
      main_idleTimeout idleTimeout KillOnTimeout d = KillOnTimeout idleTimeout d) \<and>
   (\<forall>cf. terminateWG d = 0 \<and> cancelTerminateTimer d = Some cf \<longrightarrow>
      terminateWG (handleUpgradedConn_enter d) = 1 \<and>
      cf \<in> cancelled (handleUpgradedConn_enter d))"
proof -
  have a: "\<not> terminateOnce d \<and> awaitTermination_started d = 0 \<longrightarrow>
      awaitTermination_started (run evs d) = (if SessionStart \<in> set evs then 1 else 0)"
    using run_started [of evs d] by (simp add: run_def)
  have b: "idleTimeout \<le> 0 \<longrightarrow> main_idleTimeout idleTimeout KillOnTimeout d = d"
    by (simp add: main_idleTimeout_def)
  have c: "0 < idleTimeout \<longrightarrow>
      main_idleTimeout idleTimeout KillOnTimeout d = KillOnTimeout idleTimeout d"
    by (simp add: main_idleTimeout_def)
  have e: "\<forall>cf. terminateWG d = 0 \<and> cancelTerminateTimer d = Some cf \<longrightarrow>
      terminateWG (handleUpgradedConn_enter d) = 1 \<and>
      cf \<in> cancelled (handleUpgradedConn_enter d)"
    by (simp add: handleUpgradedConn_enter_def Let_def)
  from a b c e show ?thesis by blast
qed

theorem watchdog_started_once_witness:
  "\<not> terminateOnce (zeroDaemon 0) \<and> awaitTermination_started (zeroDaemon 0) = 0 \<and>
   awaitTermination_started
     (run [SessionStart, Run_Cancel call1, SessionExit [], SessionStart, SessionStart]
        (zeroDaemon 0)) = 1 \<and>
   awaitTermination_started (run [Run_Cancel call1] (zeroDaemon 0)) = 0 \<and>
   main_idleTimeout 0 (\<lambda>t d. d\<lparr>cancelTerminateTimer := Some 9\<rparr>) (zeroDaemon 0) = zeroDaemon 0 \<and>
   terminateWG (main_idleTimeout 1 (\<lambda>t d. d\<lparr>cancelTerminateTimer := Some 9\<rparr>) (zeroDaemon 0)) = 0 \<and>
   cancelTerminateTimer
     (main_idleTimeout 1 (\<lambda>t d. d\<lparr>cancelTerminateTimer := Some 9\<rparr>) (zeroDaemon 0)) = Some 9 \<and>
   9 \<in> cancelled
     (handleUpgradedConn_enter
        (main_idleTimeout 1 (\<lambda>t d. d\<lparr>cancelTerminateTimer := Some 9\<rparr>) (zeroDaemon 0)))"
  using watchdog_started_once [of "zeroDaemon 0"
          "[SessionStart, Run_Cancel call1, SessionExit [], SessionStart, SessionStart]" 0
          "\<lambda>t d. d\<lparr>cancelTerminateTimer := Some 9\<rparr>"]
        watchdog_started_once [of "zeroDaemon 0" "[Run_Cancel call1]" 0
          "\<lambda>t d. d\<lparr>cancelTerminateTimer := Some 9\<rparr>"]
        watchdog_started_once
          [of "main_idleTimeout 1 (\<lambda>t d. d\<lparr>cancelTerminateTimer := Some 9\<rparr>) (zeroDaemon 0)"
              "[]" 1 "\<lambda>t d. d\<lparr>cancelTerminateTimer := Some 9\<rparr>"]
  by (simp add: zeroDaemon_def main_idleTimeout_def)

section \<open>The first message of an inbound stream\<close>

text \<open>
  Claim C10. When the first framed message of an inbound stream parses, the handler
  panics at the overwrite of the peer field exactly when the message is not of the
  \<open>CallUnary\<close> variant, whatever its call id is: the call id is looked at only later.
  So the handler is total only for streams that start with a \<open>CallUnary\<close>, and a remote
  peer reaches the panic with any other first message.
\<close>

theorem streamHandler_panics_unless_CallUnary:
  "ReadMsg MessageSizeMax (first_frame env) = Inr req \<Longrightarrow>
     (fst (streamHandler_begin d cw s env) = Handler_Panicked) =
       (\<forall>c. Message req \<noteq> Some (Request_CallUnary c))"
  by (auto simp: streamHandler_begin_def Let_def FromBytes_def
           split: option.splits request_message.splits prod.splits)

theorem streamHandler_panics_unless_CallUnary_witness:
  "ReadMsg MessageSizeMax (first_frame (inbound_from_B (encode (req_cancel [1, 2])))) =
     Inr (req_cancel [1, 2]) \<and>
   fst (streamHandler_begin (daemonA 0) 1 3 (inbound_from_B (encode (req_cancel [1, 2])))) =
     Handler_Panicked \<and>
   ReadMsg MessageSizeMax (first_frame (inbound_from_B (encode (req_call call1 [120])))) =
     Inr (req_call call1 [120]) \<and>
   fst (streamHandler_begin (daemonA 0) 1 3 (inbound_from_B (encode (req_call call1 [120])))) \<noteq>
     Handler_Panicked"
proof -
  have h1: "ReadMsg MessageSizeMax (first_frame (inbound_from_B (encode (req_cancel [1, 2])))) =
      Inr (req_cancel [1, 2])"
    by (simp add: inbound_from_B_def encode_def req_cancel_def Size_def field_size_def
          MessageSizeMax_def)
  have h2: "ReadMsg MessageSizeMax (first_frame (inbound_from_B (encode (req_call call1 [120])))) =
      Inr (req_call call1 [120])"
    by (simp add: inbound_from_B_def encode_def req_call_def Size_def field_size_def
          Size_CallUnaryRequest_def MessageSizeMax_def call1_def peerA_def)
  show ?thesis
    using h1 h2
      streamHandler_panics_unless_CallUnary [OF h1, of "daemonA 0" 1 3]
      streamHandler_panics_unless_CallUnary [OF h2, of "daemonA 0" 1 3]
    by (simp add: req_cancel_def req_call_def)
qed

section \<open>The client's response to an inbound call\<close>




section \<open>Malformed call ids\<close>

text \<open>
  Claim C6, as the code has it. A request of a client whose call id is not 16 bytes
  long is dropped by the read loop, whatever its variant: no worker is started for it,
  so nothing is answered (an outbound \<open>CallUnary\<close> included, and a \<open>UnaryResponse\<close>
  as well), and the loop goes on with the next message without returning; the session
  ends as if the request had not been sent. A \<open>CallUnary\<close> with such a call id that
  arrives on an inbound stream makes the handler return: the stream is closed and
  nothing else happens, no frame is written to the client.
\<close>

theorem malformed_call_id_dropped:
  "length (CallId req) \<noteq> 16 \<Longrightarrow>
     handleUpgradedConn_loop (Inr req # rest) = handleUpgradedConn_loop rest \<and>
     handleUpgradedConn_loop [Inr req] = ([], False) \<and>
     handleUpgradedConn d w (Inr req # rest) net = handleUpgradedConn d w rest net \<and>
     (\<forall>call. ReadMsg MessageSizeMax (first_frame env) = Inr req \<and>
             Message req = Some (Request_CallUnary call) \<longrightarrow>
        streamHandler_begin d cw s env =
          (Handler_Returned, d\<lparr>stream_closed := insert s (stream_closed d)\<rparr>))"
  by (simp add: FromBytes_def handleUpgradedConn_def streamHandler_begin_def Let_def)

theorem malformed_call_id_dropped_witness:
  "length (CallId (req_call [1, 2, 3] [120])) \<noteq> 16 \<and>
   handleUpgradedConn_loop [Inr (req_call [1, 2, 3] [120]), Inr (req_cancel call1)] =
     ([Worker_Cancel call1], False) \<and>
   ReadMsg MessageSizeMax (first_frame (inbound_from_B (encode (req_call [1, 2, 3] [120])))) =
     Inr (req_call [1, 2, 3] [120]) \<and>
   wire (snd (streamHandler_begin (daemonA 0) 1 3
                (inbound_from_B (encode (req_call [1, 2, 3] [120]))))) 1 = []"
proof -
  have h: "length (CallId (req_call [1, 2, 3] [120])) \<noteq> 16"
    by (simp add: req_call_def)
  show ?thesis
    using h
      malformed_call_id_dropped [OF h, where rest = "[Inr (req_cancel call1)]" and d = "daemonA 0"
        and w = 1 and net = "\<lambda>r. net_answer None" and cw = 1 and s = 3
        and env = "inbound_from_B (encode (req_call [1, 2, 3] [120]))"]
    by (simp add: req_call_def req_cancel_def call1_def FromBytes_def inbound_from_B_def
          encode_def Size_def field_size_def Size_CallUnaryRequest_def MessageSizeMax_def
          peerA_def daemonA_def doAddUnaryHandler_def zeroDaemon_def)
qed

text \<open>
  An outbound \<open>CallUnary\<close> with a call id of three bytes: the loop starts no worker and
  goes on reading, and the client is sent nothing, no daemon error either.
\<close>

theorem malformed_outbound_call_gets_no_reply:
  "Message (req_call [1, 2, 3] [120]) =
     Some (Request_CallUnary \<lparr>Peer = peerA, Proto = ''/p/echo'', Data = [120]\<rparr>) \<and>
   handleUpgradedConn_loop [Inr (req_call [1, 2, 3] [120])] = ([], False) \<and>
   wire (handleUpgradedConn (zeroDaemon 0) 1 [Inr (req_call [1, 2, 3] [120])]
           (\<lambda>r. net_answer None)) 1 = []"
  by (simp add: handleUpgradedConn_def req_call_def FromBytes_def zeroDaemon_def
        handleUpgradedConn_enter_def)

section \<open>The bound on frames\<close>

text \<open>
  Claim C8, as the code has it. A reader of the client duplex that is built with a
  bound (the configured \<open>persistentConnMsgMaxSize\<close>, by whoever calls
  \<open>handleUpgradedConn\<close>) fails on a longer frame, and the read loop returns there: the
  messages before it have their workers, nothing after it is read. On a remote stream
  the bound is \<open>network.MessageSizeMax\<close>, whatever is configured: the handler of an
  inbound stream returns on a longer first frame and accepts a \<open>CallUnary\<close> of at most
  that length, and the exchange of an outbound call answers a longer frame with a
  daemon error.
\<close>

theorem frame_bounds:
  "(n > maxSize \<longrightarrow>
      handleUpgradedConn_loop (client_reader maxSize (pre @ Frame n body # rest)) =
        (fst (handleUpgradedConn_loop (client_reader maxSize pre)), True)) \<and>
   (n > MessageSizeMax \<and> first_frame henv = Frame n body \<longrightarrow>
      streamHandler_begin d cw s henv =
        (Handler_Returned, d\<lparr>stream_closed := insert s (stream_closed d)\<rparr>)) \<and>
   (n \<le> MessageSizeMax \<and> first_frame henv = Frame n (Some req) \<and>
    Message req = Some (Request_CallUnary call) \<and> length (CallId req) = 16 \<and>
    notify_err henv = None \<longrightarrow>
      fst (streamHandler_begin d cw s henv) =
        Handler_Waiting (CallId req) (next_id d) (Suc (next_id d))) \<and>
   (n > MessageSizeMax \<and> incoming env = Some (Frame n body) \<and> write_err env = None \<and>
    \<not> ctx_err_after_write env \<and> \<not> ctx_err_after_read env \<longrightarrow>
      fst (exchangeMessages env s out d) =
        RcValue (errorUnaryCall (fst (FromBytes (CallId out))) ''short buffer''))"
  by (simp add: client_reader_def loop_after_error streamHandler_begin_def FromBytes_def
        Let_def exchangeMessages_def)

theorem frame_bounds_witness:
  "Size (req_call call1 [120]) = 37 \<and> (37::nat) > 32 \<and>
   handleUpgradedConn_loop
     (client_reader 32 ([encode (req_cancel call1)] @
         Frame 37 (Some (req_call call1 [120])) # [encode (req_cancel call2)])) =
     ([Worker_Cancel call1], True) \<and>
   fst (streamHandler_begin (daemonA 16) 1 3
          (inbound_from_B (Frame 4194305 (Some (req_reply [121]))))) = Handler_Returned \<and>
   fst (streamHandler_begin (daemonA 16) 1 3
          (inbound_from_B (Frame 37 (Some (req_call call1 [120]))))) = Handler_Waiting call1 0 1 \<and>
   fst (exchangeMessages (net_answer (Some (Frame 4194305 (Some (req_reply [121])))))
          3 (req_call call1 [120]) (daemonA 16)) =
     RcValue (errorUnaryCall call1 ''short buffer'')"
  using
    frame_bounds [where maxSize = 32 and n = 37 and pre = "[encode (req_cancel call1)]"
      and body = "Some (req_call call1 [120])" and rest = "[encode (req_cancel call2)]"]
    frame_bounds [where n = 4194305 and body = "Some (req_reply [121])"
      and henv = "inbound_from_B (Frame 4194305 (Some (req_reply [121])))"
      and d = "daemonA 16" and cw = 1 and s = 3
      and env = "net_answer (Some (Frame 4194305 (Some (req_reply [121]))))"
      and out = "req_call call1 [120]"]
    frame_bounds [where n = 37 and henv = "inbound_from_B (Frame 37 (Some (req_call call1 [120])))"
      and d = "daemonA 16" and cw = 1 and s = 3 and req = "req_call call1 [120]"
      and call = "\<lparr>Peer = peerA, Proto = ''/p/echo'', Data = [120]\<rparr>"]
  by (simp add: client_reader_def encode_def req_cancel_def req_call_def req_reply_def call1_def
        call2_def Size_def field_size_def Size_CallUnaryRequest_def MessageSizeMax_def peerA_def
        FromBytes_def inbound_from_B_def net_answer_def daemonA_def doAddUnaryHandler_def
        zeroDaemon_def)

text \<open>
  With 16 bytes configured, a frame of 37 bytes on an inbound stream is read and the
  client is notified: the configured bound does not hold on the remote wire.
\<close>

theorem remote_frame_over_configured_bound_is_read:
  "persistentConnMsgMaxSize (daemonA 16) = 16 \<and>
   encode (req_call call1 [120]) = Frame 37 (Some (req_call call1 [120])) \<and>
   map_option (\<lambda>r. (fst r, wire (snd r) 1))
     (inbound_stream (daemonA 16) ''/p/echo'' 3 (inbound_from_B (encode (req_call call1 [120])))) =
   Some (Handler_Waiting call1 0 1,
         [\<lparr>RespCallId = call1,
           RespMessage = Some (Response_RequestHandling
                                 \<lparr>Peer = peerB, Proto = ''/p/echo'', Data = [120]\<rparr>)\<rparr>])"
  by (simp add: inbound_stream_def daemonA_def doAddUnaryHandler_def zeroDaemon_def
        inbound_from_B_def encode_def req_call_def Size_def Size_CallUnaryRequest_def field_size_def
        streamHandler_begin_def MessageSizeMax_def call1_def peerA_def FromBytes_def WriteMsg_def
        Let_def)

section \<open>Outbound calls, to their end\<close>

lemma exchangeMessages_frame:
  "wire (snd (exchangeMessages env s req d)) = wire d \<and>
   cancelUnary (snd (exchangeMessages env s req d)) = cancelUnary d \<and>
   cancelled (snd (exchangeMessages env s req d)) = cancelled d \<and>
   stream_closed (snd (exchangeMessages env s req d)) = stream_closed d"
  by (simp add: exchangeMessages_def Let_def split: option.splits sum.splits)

lemma exchangeMessages_frameD:
  "exchangeMessages env s req d = (rc, d1) \<Longrightarrow>
     wire d1 = wire d \<and> cancelUnary d1 = cancelUnary d \<and> cancelled d1 = cancelled d"
  using exchangeMessages_frame [of env s req d] by simp

lemma doUnaryCall_frame:
  "wire (snd (doUnaryCall d ctx callID req env)) = wire d \<and>
   cancelUnary (snd (doUnaryCall d ctx callID req env)) = cancelUnary d \<and>
   cancelled (snd (doUnaryCall d ctx callID req env)) = cancelled d"
  by (auto simp: doUnaryCall_def Let_def dest!: exchangeMessages_frameD
           split: option.splits sum.splits prod.splits outcome.splits)

lemma doUnaryCall_closes:
  "Message req = Some (Request_CallUnary call) \<Longrightarrow>
   NewStream env (Peer call) (Proto call) = Inr s \<Longrightarrow>
   doUnaryCall d ctx callID req env = (Returns r, d1) \<Longrightarrow>
   IDFromBytes env (Peer call) = None \<Longrightarrow> s \<in> stream_closed d1"
  by (auto simp: doUnaryCall_def Let_def split: option.splits sum.splits prod.splits outcome.splits)

lemma callUnary_finish_removes:
  "callUnary_finish d w ctx callID req env = (Returns u, d') \<Longrightarrow> cancelUnary d' callID = None"
  by (auto simp: callUnary_finish_def callUnary_deferred_def split: prod.splits outcome.splits)

lemma callUnary_finish_closes:
  assumes "Message req = Some (Request_CallUnary call)"
    and "NewStream env (Peer call) (Proto call) = Inr s"
    and "IDFromBytes env (Peer call) = None"
    and "callUnary_finish d w ctx callID req env = (Returns u, d')"
  shows "s \<in> stream_closed d'"
proof -
  obtain r d1 where r: "doUnaryCall d ctx callID req env = (Returns r, d1)"
    and d': "d' = callUnary_deferred ctx callID (WriteMsg w r (client_write_err env) d1)"
    using assms(4) by (auto simp: callUnary_finish_def split: prod.splits outcome.splits)
  have "s \<in> stream_closed d1" using doUnaryCall_closes [OF assms(1) assms(2) r assms(3)] .
  then show ?thesis using d' WriteMsg_frame by (simp add: callUnary_deferred_def)
qed

lemma callUnary_finish_writes:
  assumes "doUnaryCall d ctx callID req env = (Returns (Some resp), d1)"
    and "client_write_err env = None"
  shows "fst (callUnary_finish d w ctx callID req env) = Returns () \<and>
         wire (snd (callUnary_finish d w ctx callID req env)) w = wire d w @ [resp]"
proof -
  have "wire d1 = wire d" using doUnaryCall_frame [of d ctx callID req env] assms(1) by simp
  then show ?thesis using assms
    by (simp add: callUnary_finish_def callUnary_deferred_def WriteMsg_def)
qed

text \<open>
  Claim C3, as the code has it. An outbound \<open>CallUnary\<close> with a call id of 16 bytes:
  \<^item> when the remote stream is opened, the request is written, a framed message is read
    back and the context is not cancelled, \<open>doUnaryCall\<close> returns \<open>CallUnaryResponse\<close>
    with what that message carries;
  \<^item> a \<open>Cancel\<close> request with the same call id calls the cancel function of the call;
    when the context is cancelled and the select takes its cancellation arm (the only
    ready one while the exchange has offered nothing), it returns \<open>Cancel\<close>;
  \<^item> when the peer id does not parse, the stream cannot be opened, or the framed write
    or read fails while the context is not cancelled, it returns a daemon error with
    the cause;
  \<^item> the worker writes what \<open>doUnaryCall\<close> returns to the client; whenever the worker
    ends, the call id is no longer in \<open>cancelUnary\<close> and the remote stream, if one was
    opened, is closed;
  \<^item> the end of a session calls no cancel function and leaves \<open>cancelUnary\<close> as it is:
    only a \<open>Cancel\<close> request cancels a call.
\<close>

theorem callUnary_terminal_cases:
  assumes "Message req = Some (Request_CallUnary call)" and "length (CallId req) = 16"
    and "callID = CallId req"
  shows
   "(IDFromBytes env (Peer call) = None \<and> NewStream env (Peer call) (Proto call) = Inr s \<and>
     write_err env = None \<and> \<not> ctx_err_after_write env \<and> incoming env = Some f \<and>
     ReadMsg MessageSizeMax f = Inr remoteResp \<and> \<not> ctx_err_after_read env \<and>
     \<not> send_takes_done env \<and> ctx \<notin> cancelled d \<longrightarrow>
       fst (doUnaryCall d ctx callID req env) =
         Returns (Some \<lparr>RespCallId = callID,
                        RespMessage = Some (Response_CallUnaryResponse
                                              (GetUnaryResponse remoteResp))\<rparr>)) \<and>
    (cancelUnary d0 callID = Some ctx \<longrightarrow> ctx \<in> cancelled (cancel_worker d0 callID)) \<and>
    (IDFromBytes env (Peer call) = None \<and> NewStream env (Peer call) (Proto call) = Inr s \<and>
     ctx \<in> cancelled d \<and>
     (fst (exchangeMessages env s req d) = RcEmpty \<or> select_takes_done env) \<longrightarrow>
       fst (doUnaryCall d ctx callID req env) = Returns (Some (okCancelled callID))) \<and>
    (IDFromBytes env (Peer call) = Some err \<longrightarrow>
       fst (doUnaryCall d ctx callID req env) = Returns (Some (errorUnaryCall callID err))) \<and>
    (IDFromBytes env (Peer call) = None \<and> NewStream env (Peer call) (Proto call) = Inl err \<longrightarrow>
       fst (doUnaryCall d ctx callID req env) = Returns (Some (errorUnaryCall callID err))) \<and>
    (IDFromBytes env (Peer call) = None \<and> NewStream env (Peer call) (Proto call) = Inr s \<and>
     write_err env = Some err \<and> \<not> ctx_err_after_write env \<and> ctx \<notin> cancelled d \<longrightarrow>
       fst (doUnaryCall d ctx callID req env) = Returns (Some (errorUnaryCall callID err))) \<and>
    (IDFromBytes env (Peer call) = None \<and> NewStream env (Peer call) (Proto call) = Inr s \<and>
     write_err env = None \<and> \<not> ctx_err_after_write env \<and> incoming env = Some f \<and>
     ReadMsg MessageSizeMax f = Inl err \<and> \<not> ctx_err_after_read env \<and> ctx \<notin> cancelled d \<longrightarrow>
       fst (doUnaryCall d ctx callID req env) = Returns (Some (errorUnaryCall callID err))) \<and>
    (\<forall>resp. fst (doUnaryCall d ctx callID req env) = Returns (Some resp) \<and>
        client_write_err env = None \<longrightarrow>
          fst (callUnary_finish d w ctx callID req env) = Returns () \<and>
          wire (snd (callUnary_finish d w ctx callID req env)) w = wire d w @ [resp]) \<and>
    (fst (callUnary_finish d w ctx callID req env) = Returns () \<longrightarrow>
       cancelUnary (snd (callUnary_finish d w ctx callID req env)) callID = None \<and>
       (IDFromBytes env (Peer call) = None \<and> NewStream env (Peer call) (Proto call) = Inr s \<longrightarrow>
          s \<in> stream_closed (snd (callUnary_finish d w ctx callID req env)))) \<and>
    cancelled (handleUpgradedConn_deferred streamHandlers d) = cancelled d \<and>
    cancelUnary (handleUpgradedConn_deferred streamHandlers d) = cancelUnary d"
proof -
  have cid: "fst (FromBytes (CallId req)) = callID"
    using assms by (simp add: FromBytes_def)
  have g: "GetCallUnary req = Some call" using assms(1) by simp
  have a: "IDFromBytes env (Peer call) = None \<and> NewStream env (Peer call) (Proto call) = Inr s \<and>
     write_err env = None \<and> \<not> ctx_err_after_write env \<and> incoming env = Some f \<and>
     ReadMsg MessageSizeMax f = Inr remoteResp \<and> \<not> ctx_err_after_read env \<and>
     \<not> send_takes_done env \<and> ctx \<notin> cancelled d \<longrightarrow>
       fst (doUnaryCall d ctx callID req env) =
         Returns (Some \<lparr>RespCallId = callID,
                        RespMessage = Some (Response_CallUnaryResponse
                                              (GetUnaryResponse remoteResp))\<rparr>)"
    using g cid
    by (simp add: doUnaryCall_def exchangeMessages_def Let_def okUnaryCallResponse_def
          del: GetCallUnary.simps GetUnaryResponse.simps)
  have b0: "cancelUnary d0 callID = Some ctx \<longrightarrow> ctx \<in> cancelled (cancel_worker d0 callID)"
    by (simp add: cancel_worker_def)
  have b: "IDFromBytes env (Peer call) = None \<and> NewStream env (Peer call) (Proto call) = Inr s \<and>
     ctx \<in> cancelled d \<and>
     (fst (exchangeMessages env s req d) = RcEmpty \<or> select_takes_done env) \<longrightarrow>
       fst (doUnaryCall d ctx callID req env) = Returns (Some (okCancelled callID))"
  proof (intro impI, elim conjE)
    assume h: "IDFromBytes env (Peer call) = None" "NewStream env (Peer call) (Proto call) = Inr s"
      "ctx \<in> cancelled d"
      "fst (exchangeMessages env s req d) = RcEmpty \<or> select_takes_done env"
    obtain rc d1 where e: "exchangeMessages env s req d = (rc, d1)"
      by (cases "exchangeMessages env s req d")
    have c1: "ctx \<in> cancelled d1" using exchangeMessages_frame [of env s req d] e h(3) by simp
    have "select_response rc True (select_takes_done env) callID =
            Returns (Some (okCancelled callID))"
      using h(4) e by (cases rc) auto
    then show "fst (doUnaryCall d ctx callID req env) = Returns (Some (okCancelled callID))"
      using g h(1) h(2) e c1 by (simp add: doUnaryCall_def del: GetCallUnary.simps)
  qed
  have c: "IDFromBytes env (Peer call) = Some err \<longrightarrow>
       fst (doUnaryCall d ctx callID req env) = Returns (Some (errorUnaryCall callID err))"
    using g by (simp add: doUnaryCall_def del: GetCallUnary.simps)
  have c2: "IDFromBytes env (Peer call) = None \<and> NewStream env (Peer call) (Proto call) = Inl err \<longrightarrow>
       fst (doUnaryCall d ctx callID req env) = Returns (Some (errorUnaryCall callID err))"
    using g by (simp add: doUnaryCall_def del: GetCallUnary.simps)
  have c3: "IDFromBytes env (Peer call) = None \<and> NewStream env (Peer call) (Proto call) = Inr s \<and>
     write_err env = Some err \<and> \<not> ctx_err_after_write env \<and> ctx \<notin> cancelled d \<longrightarrow>
       fst (doUnaryCall d ctx callID req env) = Returns (Some (errorUnaryCall callID err))"
    using g cid
    by (simp add: doUnaryCall_def exchangeMessages_def Let_def del: GetCallUnary.simps)
  have c4: "IDFromBytes env (Peer call) = None \<and> NewStream env (Peer call) (Proto call) = Inr s \<and>
     write_err env = None \<and> \<not> ctx_err_after_write env \<and> incoming env = Some f \<and>
     ReadMsg MessageSizeMax f = Inl err \<and> \<not> ctx_err_after_read env \<and> ctx \<notin> cancelled d \<longrightarrow>
       fst (doUnaryCall d ctx callID req env) = Returns (Some (errorUnaryCall callID err))"
    using g cid
    by (simp add: doUnaryCall_def exchangeMessages_def Let_def del: GetCallUnary.simps)
  have w: "\<forall>resp. fst (doUnaryCall d ctx callID req env) = Returns (Some resp) \<and>
        client_write_err env = None \<longrightarrow>
          fst (callUnary_finish d w ctx callID req env) = Returns () \<and>
          wire (snd (callUnary_finish d w ctx callID req env)) w = wire d w @ [resp]"
  proof (intro allI impI, elim conjE)
    fix resp
    assume h: "fst (doUnaryCall d ctx callID req env) = Returns (Some resp)"
      "client_write_err env = None"
    obtain d1 where "doUnaryCall d ctx callID req env = (Returns (Some resp), d1)"
      using h(1) by (cases "doUnaryCall d ctx callID req env") simp
    then show "fst (callUnary_finish d w ctx callID req env) = Returns () \<and>
          wire (snd (callUnary_finish d w ctx callID req env)) w = wire d w @ [resp]"
      using callUnary_finish_writes [of d ctx callID req env resp d1 w] h(2) by simp
  qed
  have t: "fst (callUnary_finish d w ctx callID req env) = Returns () \<longrightarrow>
       cancelUnary (snd (callUnary_finish d w ctx callID req env)) callID = None \<and>
       (IDFromBytes env (Peer call) = None \<and> NewStream env (Peer call) (Proto call) = Inr s \<longrightarrow>
          s \<in> stream_closed (snd (callUnary_finish d w ctx callID req env)))"
  proof (intro impI conjI)
    assume h: "fst (callUnary_finish d w ctx callID req env) = Returns ()"
    then obtain d' where d': "callUnary_finish d w ctx callID req env = (Returns (), d')"
      by (cases "callUnary_finish d w ctx callID req env") simp
    show "cancelUnary (snd (callUnary_finish d w ctx callID req env)) callID = None"
      using callUnary_finish_removes [OF d'] d' by simp
    assume "IDFromBytes env (Peer call) = None \<and> NewStream env (Peer call) (Proto call) = Inr s"
    then show "s \<in> stream_closed (snd (callUnary_finish d w ctx callID req env))"
      using callUnary_finish_closes [OF assms(1) _ _ d', of s] d' by simp
  qed
  show ?thesis
    using a b0 b c c2 c3 c4 w t deferred_keeps_calls [of streamHandlers d] by blast
qed

theorem callUnary_terminal_cases_witness:
  "Message (req_call call1 [120]) =
     Some (Request_CallUnary \<lparr>Peer = peerA, Proto = ''/p/echo'', Data = [120]\<rparr>) \<and>
   length (CallId (req_call call1 [120])) = 16 \<and>
   call1 = CallId (req_call call1 [120]) \<and>
   fst (doUnaryCall in_flight 0 call1 (req_call call1 [120])
          (net_answer (Some (encode (req_reply [121]))))) =
     Returns (Some \<lparr>RespCallId = call1,
                    RespMessage = Some (Response_CallUnaryResponse
                                          (Some (Result_Response [121])))\<rparr>) \<and>
   cancelUnary in_flight call1 = Some 0 \<and>
   fst (doUnaryCall (cancel_worker in_flight call1) 0 call1 (req_call call1 [120])
          (net_answer None)) = Returns (Some (okCancelled call1)) \<and>
   fst (doUnaryCall in_flight 0 call1 (req_call call1 [120])
          ((net_answer None)\<lparr>IDFromBytes := \<lambda>b. Some ''bad peer id''\<rparr>)) =
     Returns (Some (errorUnaryCall call1 ''bad peer id'')) \<and>
   fst (doUnaryCall in_flight 0 call1 (req_call call1 [120])
          ((net_answer None)\<lparr>NewStream := \<lambda>pid p. Inl ''dial failed''\<rparr>)) =
     Returns (Some (errorUnaryCall call1 ''dial failed'')) \<and>
   fst (doUnaryCall in_flight 0 call1 (req_call call1 [120])
          ((net_answer None)\<lparr>write_err := Some ''stream reset''\<rparr>)) =
     Returns (Some (errorUnaryCall call1 ''stream reset'')) \<and>
   fst (doUnaryCall in_flight 0 call1 (req_call call1 [120])
          (net_answer (Some (TransportError ''EOF'')))) =
     Returns (Some (errorUnaryCall call1 ''EOF'')) \<and>
   fst (callUnary_finish (cancel_worker in_flight call1) 1 0 call1 (req_call call1 [120])
          (net_answer None)) = Returns () \<and>
   wire (snd (callUnary_finish (cancel_worker in_flight call1) 1 0 call1 (req_call call1 [120])
          (net_answer None))) 1 = [okCancelled call1] \<and>
   cancelUnary (snd (callUnary_finish (cancel_worker in_flight call1) 1 0 call1
          (req_call call1 [120]) (net_answer None))) call1 = None \<and>
   5 \<in> stream_closed (snd (callUnary_finish (cancel_worker in_flight call1) 1 0 call1
          (req_call call1 [120]) (net_answer None)))"
proof -
  have h1: "Message (req_call call1 [120]) =
      Some (Request_CallUnary \<lparr>Peer = peerA, Proto = ''/p/echo'', Data = [120]\<rparr>)"
    by (simp add: req_call_def)
  have h2: "length (CallId (req_call call1 [120])) = 16"
    by (simp add: req_call_def call1_def)
  have h3: "call1 = CallId (req_call call1 [120])"
    by (simp add: req_call_def)
  note t = callUnary_terminal_cases [OF h1 h2 h3]
  show ?thesis
    using h1 h2 h3
      t [where env = "net_answer (Some (encode (req_reply [121])))" and d = in_flight and ctx = 0
           and s = 5 and f = "encode (req_reply [121])" and remoteResp = "req_reply [121]"]
      t [where env = "net_answer None" and d = "cancel_worker in_flight call1" and ctx = 0
           and s = 5 and ?d0.0 = in_flight and w = 1]
      t [where env = "(net_answer None)\<lparr>IDFromBytes := \<lambda>b. Some ''bad peer id''\<rparr>"
           and d = in_flight and ctx = 0 and err = "''bad peer id''"]
      t [where env = "(net_answer None)\<lparr>NewStream := \<lambda>pid p. Inl ''dial failed''\<rparr>"
           and d = in_flight and ctx = 0 and err = "''dial failed''"]
      t [where env = "(net_answer None)\<lparr>write_err := Some ''stream reset''\<rparr>"
           and d = in_flight and ctx = 0 and s = 5 and err = "''stream reset''"]
      t [where env = "net_answer (Some (TransportError ''EOF''))" and d = in_flight and ctx = 0
           and s = 5 and f = "TransportError ''EOF''" and err = "''EOF''"]
    by (simp add: in_flight_def callUnary_begin_def handleUpgradedConn_enter_def zeroDaemon_def
          net_answer_def req_call_def req_reply_def encode_def Size_def field_size_def
          MessageSizeMax_def call1_def peerA_def cancel_worker_def exchangeMessages_def
          FromBytes_def Let_def)
qed

text \<open>
  The session ends while its call \<open>call1\<close> is in flight: the cancel function of the call
  is not called and the call stays in \<open>cancelUnary\<close>; with no response there the worker
  goes on waiting instead of answering \<open>Cancel\<close>, and with a response it answers
  \<open>CallUnaryResponse\<close>.
\<close>

theorem session_exit_cancels_no_call:
  "cancelUnary in_flight call1 = Some 0 \<and>
   0 \<notin> cancelled (handleUpgradedConn_deferred [] in_flight) \<and>
   cancelUnary (handleUpgradedConn_deferred [] in_flight) call1 = Some 0 \<and>
   fst (callUnary_finish (handleUpgradedConn_deferred [] in_flight) 1 0 call1
          (req_call call1 [120]) (net_answer None)) = Blocks \<and>
   wire (snd (callUnary_finish (handleUpgradedConn_deferred [] in_flight) 1 0 call1
          (req_call call1 [120]) (net_answer None))) 1 = [] \<and>
   wire (snd (callUnary_finish (handleUpgradedConn_deferred [] in_flight) 1 0 call1
          (req_call call1 [120]) (net_answer (Some (encode (req_reply [121])))))) 1 =
     [\<lparr>RespCallId = call1,
       RespMessage = Some (Response_CallUnaryResponse (Some (Result_Response [121])))\<rparr>]"
  by (simp add: in_flight_def callUnary_begin_def handleUpgradedConn_enter_def zeroDaemon_def
        handleUpgradedConn_deferred_def callUnary_finish_def doUnaryCall_def exchangeMessages_def
        net_answer_def req_call_def req_reply_def encode_def Size_def field_size_def
        MessageSizeMax_def call1_def FromBytes_def Let_def okUnaryCallResponse_def WriteMsg_def
        callUnary_deferred_def)

section \<open>A call from one daemon to another\<close>







end
